theory Spec2Isabelle
  imports
    Complex_Main
    "HOL-Library.Sublist"
    "HOL-Library.Char_ord"
    "HOL-Library.List_Lexorder"
    "HOL-Library.Log_Nat"
begin

section \<open>Python strings and integers\<close>

text \<open>
  The scripts compare, search and convert strings. Strings are modelled as ASCII
  character lists; Python's \<^verbatim>\<open>str.lower()\<close> is the ASCII lower-casing, \<^verbatim>\<open>a in b\<close> is
  the contiguous-substring test, \<^verbatim>\<open>str(n)\<close> is the decimal rendering of an integer and
  \<^verbatim>\<open>int(s)\<close> is the decimal parser (surrounding white space, one optional sign, digits
  with single underscores between them). \<^verbatim>\<open>int(s)\<close> raising \<^verbatim>\<open>ValueError\<close> is the value
  \<open>None\<close>.
\<close>

definition ascii_lower :: "char \<Rightarrow> char" where
  "ascii_lower c =
     (let n = (of_char c :: nat) in if 65 \<le> n \<and> n \<le> 90 then char_of (n + 32) else c)"

definition lower :: "string \<Rightarrow> string" where
  "lower s = map ascii_lower s"

definition contains :: "string \<Rightarrow> string \<Rightarrow> bool" where
  \<comment> \<open>\<^verbatim>\<open>sub in s\<close>\<close>
  "contains s sub = sublist sub s"

fun str_nat :: "nat \<Rightarrow> string" where
  "str_nat n =
     (if n < 10 then [char_of (48 + n)] else str_nat (n div 10) @ [char_of (48 + n mod 10)])"

declare str_nat.simps [simp del]

definition str_int :: "int \<Rightarrow> string" where
  "str_int i = (if i < 0 then CHR ''-'' # str_nat (nat (- i)) else str_nat (nat i))"

definition is_space :: "char \<Rightarrow> bool" where
  "is_space c = (let n = (of_char c :: nat) in (9 \<le> n \<and> n \<le> 13) \<or> (28 \<le> n \<and> n \<le> 32))"

definition is_digit :: "char \<Rightarrow> bool" where
  "is_digit c = (let n = (of_char c :: nat) in 48 \<le> n \<and> n \<le> 57)"

definition digit_val :: "char \<Rightarrow> nat" where
  "digit_val c = (of_char c :: nat) - 48"

definition strip :: "string \<Rightarrow> string" where
  "strip s = rev (dropWhile is_space (rev (dropWhile is_space s)))"

fun parse_digits :: "nat \<Rightarrow> string \<Rightarrow> nat option" where
  "parse_digits acc [] = Some acc"
| "parse_digits acc [c] = (if is_digit c then Some (10 * acc + digit_val c) else None)"
| "parse_digits acc (c # d # cs) =
     (if is_digit c then parse_digits (10 * acc + digit_val c) (d # cs)
      else if c = CHR ''_'' \<and> is_digit d then parse_digits acc (d # cs)
      else None)"

definition parse_nat :: "string \<Rightarrow> nat option" where
  "parse_nat s =
     (case s of [] \<Rightarrow> None
      | c # cs \<Rightarrow> if is_digit c then parse_digits (digit_val c) cs else None)"

definition py_int :: "string \<Rightarrow> int option" where
  "py_int s =
     (case strip s of
        [] \<Rightarrow> None
      | c # cs \<Rightarrow>
          if c = CHR ''-'' then map_option (\<lambda>n. - int n) (parse_nat cs)
          else if c = CHR ''+'' then map_option int (parse_nat cs)
          else map_option int (parse_nat (c # cs)))"


section \<open>The remote service, the clock and the HTTP helpers\<close>

text \<open>
  A call of \<^verbatim>\<open>requests.post\<close> either raises \<^verbatim>\<open>RequestException\<close> or answers with a
  response. Of a response the scripts read the status code, the text, the
  \<^verbatim>\<open>Retry-After\<close> header and (in the new-plan script) the list under the JSON key
  \<^verbatim>\<open>existing_variants\<close>, empty when the key is absent or the body is no JSON.

  The world records what the scripts do to their surroundings: the requests posted, oldest
  first, the arguments of \<^verbatim>\<open>time.sleep\<close>, and the wall clock in seconds. The remote
  service is any function of the world so far and the request; it also says how many
  milliseconds the call took. Seconds are rational numbers: binary floating point rounding
  is not modelled.
\<close>

datatype exn =
  RequestException | RuntimeError | ValueError | HTTPStatusError | DbError | UnboundLocalError

record response =
  status_code :: int
  body_text :: string
  retry_after :: "string option"
  existing_variants :: "int list"

datatype reply = Raises | Answers response

record request =
  url_offer_id :: string
  shopify_variant_ids :: "int list"
  payload_preorder_max_count :: "int option"

record world =
  calls :: "request list"
  sleeps :: "rat list"
  clock :: rat

text \<open>
  The environment of a script: the module constant \<^verbatim>\<open>STOQ_API_BASE\<close> read from the
  process environment, the remote service, and Python's \<^verbatim>\<open>float\<close> on a header text
  (\<open>None\<close> where it raises \<^verbatim>\<open>ValueError\<close>).
\<close>

record env =
  STOQ_API_BASE :: "string option"
  remote :: "world \<Rightarrow> request \<Rightarrow> reply \<times> nat"
  float_of :: "string \<Rightarrow> rat option"

definition post :: "env \<Rightarrow> request \<Rightarrow> world \<Rightarrow> reply \<times> world" where
  "post e rq w =
     (case remote e w rq of
        (r, ms) \<Rightarrow> (r, w\<lparr>calls := calls w @ [rq], clock := clock w + of_nat ms / 1000\<rparr>))"

definition sleep :: "rat \<Rightarrow> world \<Rightarrow> (exn + unit) \<times> world" where
  \<comment> \<open>\<^verbatim>\<open>time.sleep\<close> raises \<^verbatim>\<open>ValueError\<close> on a negative length\<close>
  "sleep d w =
     (if d < 0 then (Inl ValueError, w)
      else (Inr (), w\<lparr>sleeps := sleeps w @ [d], clock := clock w + d\<rparr>))"

text \<open>The keyword arguments that the add functions hand down unchanged.\<close>

record kwargs =
  preorder_max_count :: "int option"
  timeout :: int
  max_retries :: int
  base_backoff :: rat

subsection \<open>\<^verbatim>\<open>_post_with_retries\<close> of the existing-offer scripts (steps 11 and 12)\<close>

text \<open>
  The \<^verbatim>\<open>while True\<close> loop, with the loop variable \<^verbatim>\<open>attempt\<close> as an argument (0 at
  the call).
\<close>

function post_with_retries ::
  "env \<Rightarrow> request \<Rightarrow> int \<Rightarrow> rat \<Rightarrow> nat \<Rightarrow> world \<Rightarrow> (exn + response) \<times> world" where
  "post_with_retries e rq max_r base attempt w =
     (case post e rq w of
        (Raises, w1) \<Rightarrow>
          if int (attempt + 1) > max_r then (Inl RequestException, w1)
          else (case sleep (base * 2 ^ (attempt + 1 - 1)) w1 of
                  (Inl x, w2) \<Rightarrow> (Inl x, w2)
                | (Inr _, w2) \<Rightarrow> post_with_retries e rq max_r base (attempt + 1) w2)
      | (Answers resp, w1) \<Rightarrow>
          if status_code resp = 429 \<or> (500 \<le> status_code resp \<and> status_code resp < 600) then
            if int (attempt + 1) > max_r then (Inr resp, w1)
            else
              let computed = base * 2 ^ (attempt + 1 - 1);
                  delay = (case retry_after resp of
                             None \<Rightarrow> computed
                           | Some ra \<Rightarrow>
                               if ra = [] then computed
                               else (case float_of e ra of None \<Rightarrow> computed | Some d \<Rightarrow> d))
              in (case sleep delay w1 of
                    (Inl x, w2) \<Rightarrow> (Inl x, w2)
                  | (Inr _, w2) \<Rightarrow> post_with_retries e rq max_r base (attempt + 1) w2)
          else (Inr resp, w1))"
  by pat_completeness auto
termination
  by (relation "measure (\<lambda>(e, rq, max_r, base, attempt, w). nat (max_r - int attempt))") auto

declare post_with_retries.simps [simp del]

subsection \<open>\<^verbatim>\<open>_try_add_chunk\<close> and \<^verbatim>\<open>_is_job_in_progress\<close>\<close>

text \<open>
  The result triple is \<^verbatim>\<open>(ok, json_or_none, err_text_or_none)\<close>. The JSON document of a
  successful answer is kept as the text of the response; no caller reads it.
\<close>

type_synonym add_result = "bool \<times> string option \<times> string option"

definition try_add_chunk ::
  "env \<Rightarrow> string \<Rightarrow> int list \<Rightarrow> kwargs \<Rightarrow> world \<Rightarrow> (exn + add_result) \<times> world" where
  "try_add_chunk e stoq_offer_id ids kw w =
     (if STOQ_API_BASE e = None \<or> STOQ_API_BASE e = Some [] then (Inl RuntimeError, w)
      else
        case post_with_retries e
               \<lparr>url_offer_id = stoq_offer_id, shopify_variant_ids = ids,
                payload_preorder_max_count = preorder_max_count kw\<rparr>
               (max_retries kw) (base_backoff kw) 0 w of
          (Inl x, w1) \<Rightarrow> (Inl x, w1)
        | (Inr resp, w1) \<Rightarrow>
            if 200 \<le> status_code resp \<and> status_code resp < 300
            then (Inr (True, Some (body_text resp), None), w1)
            else if status_code resp = 409 \<or> status_code resp = 422
            then (Inr (False, None, Some (body_text resp)), w1)
            else (Inr (False, None,
                    Some (''HTTP '' @ str_int (status_code resp) @ '': '' @ body_text resp)), w1))"

definition is_job_in_progress :: "string option \<Rightarrow> bool" where
  "is_job_in_progress err =
     (let t = lower (case err of None \<Rightarrow> [] | Some s \<Rightarrow> s)
      in contains t ''another job is in progress'' \<or> contains t ''job is in progress'')"

subsection \<open>\<^verbatim>\<open>_try_add_chunk_with_lock_wait\<close> (step 12)\<close>

record lock_kwargs =
  lock_wait_seconds :: rat
  lock_backoff_start :: rat
  lock_backoff_factor :: rat
  lock_backoff_cap :: rat

text \<open>
  The \<^verbatim>\<open>while True\<close> loop with its variables \<^verbatim>\<open>start\<close> and \<^verbatim>\<open>sleep_s\<close> as arguments.
  Nothing in the code bounds the number of rounds, so the loop is a partial function:
  \<open>None\<close> is a loop that never returns.
\<close>

partial_function (option) lock_wait_loop ::
  "env \<Rightarrow> string \<Rightarrow> int list \<Rightarrow> kwargs \<Rightarrow> lock_kwargs \<Rightarrow> rat \<Rightarrow> rat \<Rightarrow> world
     \<Rightarrow> ((exn + add_result) \<times> world) option" where
  "lock_wait_loop e stoq_offer_id ids kw lk start sleep_s w =
     (case try_add_chunk e stoq_offer_id ids kw w of
        (Inl x, w1) \<Rightarrow> Some (Inl x, w1)
      | (Inr (ok, body, err), w1) \<Rightarrow>
          if ok then Some (Inr (True, body, None), w1)
          else if is_job_in_progress err then
            if clock w1 - start \<ge> lock_wait_seconds lk then Some (Inr (False, None, err), w1)
            else (case sleep sleep_s w1 of
                    (Inl x, w2) \<Rightarrow> Some (Inl x, w2)
                  | (Inr _, w2) \<Rightarrow>
                      lock_wait_loop e stoq_offer_id ids kw lk start
                        (min (lock_backoff_cap lk) (sleep_s * lock_backoff_factor lk)) w2)
          else Some (Inr (False, None, err), w1))"

declare lock_wait_loop.simps [code]

definition try_add_chunk_with_lock_wait ::
  "env \<Rightarrow> string \<Rightarrow> int list \<Rightarrow> kwargs \<Rightarrow> lock_kwargs \<Rightarrow> world
     \<Rightarrow> ((exn + add_result) \<times> world) option" where
  "try_add_chunk_with_lock_wait e stoq_offer_id ids kw lk w =
     lock_wait_loop e stoq_offer_id ids kw lk (clock w) (lock_backoff_start lk) w"


section \<open>The adaptive failure resolver of the existing-offer scripts\<close>

text \<open>
  The two accumulator lists that \<^verbatim>\<open>_divide_and_conquer_on_422\<close> receives by reference
  and appends to; the model hands them through and returns them.
\<close>

record acc =
  skipped_invalid :: "int list"
  added_ok :: "int list"

subsection \<open>\<^verbatim>\<open>_divide_and_conquer_on_422\<close> of the remove script (step 11)\<close>

function divide_and_conquer_on_422_11 ::
  "env \<Rightarrow> string \<Rightarrow> int list \<Rightarrow> kwargs \<Rightarrow> acc \<Rightarrow> world \<Rightarrow> (exn + acc) \<times> world" where
  "divide_and_conquer_on_422_11 e stoq_offer_id ids kw a w =
     (if ids = [] then (Inr a, w)
      else if length ids = 1 then (Inr (a\<lparr>skipped_invalid := skipped_invalid a @ [hd ids]\<rparr>), w)
      else
        let mid = length ids div 2; left = take mid ids; right = drop mid ids in
        case try_add_chunk e stoq_offer_id left kw w of
          (Inl x, w1) \<Rightarrow> (Inl x, w1)
        | (Inr (ok, _, err), w1) \<Rightarrow>
            (case (if ok then (Inr (a\<lparr>added_ok := added_ok a @ left\<rparr>), w1)
                   else divide_and_conquer_on_422_11 e stoq_offer_id left kw a w1) of
               (Inl x, w2) \<Rightarrow> (Inl x, w2)
             | (Inr a2, w2) \<Rightarrow>
                 (case try_add_chunk e stoq_offer_id right kw w2 of
                    (Inl x, w3) \<Rightarrow> (Inl x, w3)
                  | (Inr (ok2, _, err2), w3) \<Rightarrow>
                      if ok2 then (Inr (a2\<lparr>added_ok := added_ok a2 @ right\<rparr>), w3)
                      else divide_and_conquer_on_422_11 e stoq_offer_id right kw a2 w3)))"
  by pat_completeness auto
termination
proof -
  have half: "length ids - length ids div 2 < length ids"
    if "ids \<noteq> []" "length ids \<noteq> Suc 0" for ids :: "int list"
    using that by (cases ids) auto
  show ?thesis
    by (relation "measure (\<lambda>(e, stoq_offer_id, ids, kw, a, w). length ids)")
      (auto simp: half)
qed

declare divide_and_conquer_on_422_11.simps [simp del]

subsection \<open>\<^verbatim>\<open>_divide_and_conquer_on_422\<close> of the add script (step 12)\<close>

text \<open>
  Every call of step 12 passes the same lock-wait arguments. Both probes of a round post
  \<^verbatim>\<open>left\<close>: the second probe, whose success appends \<^verbatim>\<open>right\<close>, is written
  \<^verbatim>\<open>_try_add_chunk_with_lock_wait(stoq_offer_id, left, ...)\<close> in the source.
\<close>

definition lock_defaults :: lock_kwargs where
  "lock_defaults =
     \<lparr>lock_wait_seconds = 180, lock_backoff_start = 1, lock_backoff_factor = 18 / 10,
      lock_backoff_cap = 12\<rparr>"

function divide_and_conquer_on_422_12 ::
  "env \<Rightarrow> string \<Rightarrow> int list \<Rightarrow> kwargs \<Rightarrow> acc \<Rightarrow> world \<Rightarrow> ((exn + acc) \<times> world) option" where
  "divide_and_conquer_on_422_12 e stoq_offer_id ids kw a w =
     (if ids = [] then Some (Inr a, w)
      else if length ids = 1
      then Some (Inr (a\<lparr>skipped_invalid := skipped_invalid a @ [hd ids]\<rparr>), w)
      else
        let mid = length ids div 2; left = take mid ids; right = drop mid ids in
        case try_add_chunk_with_lock_wait e stoq_offer_id left kw lock_defaults w of
          None \<Rightarrow> None
        | Some (Inl x, w1) \<Rightarrow> Some (Inl x, w1)
        | Some (Inr (ok, _, err), w1) \<Rightarrow>
            (case (if ok then Some (Inr (a\<lparr>added_ok := added_ok a @ left\<rparr>), w1)
                   else divide_and_conquer_on_422_12 e stoq_offer_id left kw a w1) of
               None \<Rightarrow> None
             | Some (Inl x, w2) \<Rightarrow> Some (Inl x, w2)
             | Some (Inr a2, w2) \<Rightarrow>
                 (case try_add_chunk_with_lock_wait e stoq_offer_id left kw lock_defaults w2 of
                    None \<Rightarrow> None
                  | Some (Inl x, w3) \<Rightarrow> Some (Inl x, w3)
                  | Some (Inr (ok2, _, err2), w3) \<Rightarrow>
                      if ok2 then Some (Inr (a2\<lparr>added_ok := added_ok a2 @ right\<rparr>), w3)
                      else divide_and_conquer_on_422_12 e stoq_offer_id right kw a2 w3)))"
  by pat_completeness auto
termination
proof -
  have half: "length ids - length ids div 2 < length ids"
    if "ids \<noteq> []" "length ids \<noteq> Suc 0" for ids :: "int list"
    using that by (cases ids) auto
  show ?thesis
    by (relation "measure (\<lambda>(e, stoq_offer_id, ids, kw, a, w). length ids)")
      (auto simp: half)
qed

declare divide_and_conquer_on_422_12.simps [simp del]

subsection \<open>\<^verbatim>\<open>call_stoq_add_variants\<close>\<close>

text \<open>
  \<^verbatim>\<open>for i in range(0, total, chunk_size): chunk = variant_ids[i : i + chunk_size]\<close>
  visits the slices that \<open>chunked\<close> lists (for a positive step).
\<close>

function chunked :: "nat \<Rightarrow> 'a list \<Rightarrow> 'a list list" where
  "chunked n xs = (if n = 0 \<or> xs = [] then [] else take n xs # chunked n (drop n xs))"
  by pat_completeness auto
termination
  by (relation "measure (\<lambda>(n, xs). length xs)") auto

declare chunked.simps [simp del]

definition looks_like_422 :: "string option \<Rightarrow> bool" where
  \<comment> \<open>\<^verbatim>\<open>err and ("422" in err or "already" in err.lower() or "unprocessable" in err.lower())\<close>\<close>
  "looks_like_422 err =
     (case err of
        None \<Rightarrow> False
      | Some s \<Rightarrow>
          s \<noteq> [] \<and>
          (contains s ''422'' \<or> contains (lower s) ''already''
             \<or> contains (lower s) ''unprocessable''))"

definition some_ids_error :: "string option \<Rightarrow> string" where
  "some_ids_error err =
     ''Some IDs could not be added (likely already present). Example error: ''
       @ take 200 (case err of None \<Rightarrow> [] | Some s \<Rightarrow> s)"

definition err_or_unknown :: "string option \<Rightarrow> string" where
  \<comment> \<open>\<^verbatim>\<open>err or "Unknown error while adding variants."\<close>\<close>
  "err_or_unknown err =
     (case err of
        None \<Rightarrow> ''Unknown error while adding variants.''
      | Some s \<Rightarrow> if s = [] then ''Unknown error while adding variants.'' else s)"

text \<open>The body of the \<^verbatim>\<open>for\<close> loop, over the chunks still to visit.\<close>

fun add_loop_11 ::
  "env \<Rightarrow> string \<Rightarrow> kwargs \<Rightarrow> int list list \<Rightarrow> acc \<Rightarrow> string option \<Rightarrow> world
     \<Rightarrow> (exn + acc \<times> string option) \<times> world" where
  "add_loop_11 e stoq_offer_id kw [] a first_error w = (Inr (a, first_error), w)"
| "add_loop_11 e stoq_offer_id kw (chunk # rest) a first_error w =
     (case try_add_chunk e stoq_offer_id chunk kw w of
        (Inl x, w1) \<Rightarrow> (Inl x, w1)
      | (Inr (ok, _, err), w1) \<Rightarrow>
          if ok then
            add_loop_11 e stoq_offer_id kw rest (a\<lparr>added_ok := added_ok a @ chunk\<rparr>) first_error w1
          else if looks_like_422 err then
            (case divide_and_conquer_on_422_11 e stoq_offer_id chunk kw a w1 of
               (Inl x, w2) \<Rightarrow> (Inl x, w2)
             | (Inr a2, w2) \<Rightarrow>
                 add_loop_11 e stoq_offer_id kw rest a2
                   (if first_error = None then Some (some_ids_error err) else first_error) w2)
          else
            add_loop_11 e stoq_offer_id kw rest a
              (if first_error = None then Some (err_or_unknown err) else first_error) w1)"

fun add_loop_12 ::
  "env \<Rightarrow> string \<Rightarrow> kwargs \<Rightarrow> int list list \<Rightarrow> acc \<Rightarrow> string option \<Rightarrow> world
     \<Rightarrow> ((exn + acc \<times> string option) \<times> world) option" where
  "add_loop_12 e stoq_offer_id kw [] a first_error w = Some (Inr (a, first_error), w)"
| "add_loop_12 e stoq_offer_id kw (chunk # rest) a first_error w =
     (case try_add_chunk_with_lock_wait e stoq_offer_id chunk kw lock_defaults w of
        None \<Rightarrow> None
      | Some (Inl x, w1) \<Rightarrow> Some (Inl x, w1)
      | Some (Inr (ok, _, err), w1) \<Rightarrow>
          if ok then
            add_loop_12 e stoq_offer_id kw rest (a\<lparr>added_ok := added_ok a @ chunk\<rparr>) first_error w1
          else if looks_like_422 err then
            (case divide_and_conquer_on_422_12 e stoq_offer_id chunk kw a w1 of
               None \<Rightarrow> None
             | Some (Inl x, w2) \<Rightarrow> Some (Inl x, w2)
             | Some (Inr a2, w2) \<Rightarrow>
                 add_loop_12 e stoq_offer_id kw rest a2
                   (if first_error = None then Some (some_ids_error err) else first_error) w2)
          else
            add_loop_12 e stoq_offer_id kw rest a
              (if first_error = None then Some (err_or_unknown err) else first_error) w1)"

text \<open>
  The summary dictionary. Its key \<^verbatim>\<open>skipped_file\<close> names the JSON file written when
  \<^verbatim>\<open>write_skipped_file\<close> is set and something was skipped; the model keeps the list
  written to that file in its place (the file name carries a time stamp).
\<close>

record summary =
  summary_offer_id :: string
  requested_count :: nat
  added_ok_count :: nat
  skipped_invalid_count :: nat
  added_ok_sample :: "int list"
  skipped_invalid_sample :: "int list"
  skipped_file :: "int list option"

definition summarise :: "string \<Rightarrow> nat \<Rightarrow> bool \<Rightarrow> acc \<Rightarrow> summary" where
  "summarise stoq_offer_id total_n write_skipped_file a =
     \<lparr>summary_offer_id = stoq_offer_id, requested_count = total_n,
      added_ok_count = length (added_ok a),
      skipped_invalid_count = length (skipped_invalid a),
      added_ok_sample = take 10 (added_ok a),
      skipped_invalid_sample = take 10 (skipped_invalid a),
      skipped_file =
        (if write_skipped_file \<and> skipped_invalid a \<noteq> [] then Some (skipped_invalid a)
         else None)\<rparr>"

definition overall_ok :: "acc \<Rightarrow> bool" where
  \<comment> \<open>\<^verbatim>\<open>(len(added_ok) > 0) and (len(skipped_invalid) == 0 or len(added_ok) >= 1)\<close>\<close>
  "overall_ok a =
     (length (added_ok a) > 0 \<and> (length (skipped_invalid a) = 0 \<or> length (added_ok a) \<ge> 1))"

definition chunks_of_range :: "int \<Rightarrow> int list \<Rightarrow> exn + int list list" where
  \<comment> \<open>\<^verbatim>\<open>range\<close> raises \<^verbatim>\<open>ValueError\<close> on step 0 and is empty for a negative step\<close>
  "chunks_of_range chunk_size variant_ids =
     (if chunk_size = 0 then Inl ValueError
      else if chunk_size < 0 then Inr []
      else Inr (chunked (nat chunk_size) variant_ids))"

definition call_stoq_add_variants_11 ::
  "env \<Rightarrow> string \<Rightarrow> int list \<Rightarrow> kwargs \<Rightarrow> int \<Rightarrow> bool \<Rightarrow> world
     \<Rightarrow> (exn + bool \<times> summary \<times> string option) \<times> world" where
  "call_stoq_add_variants_11 e stoq_offer_id variant_ids kw chunk_size write_skipped_file w =
     (case chunks_of_range chunk_size variant_ids of
        Inl x \<Rightarrow> (Inl x, w)
      | Inr chunks \<Rightarrow>
          (case add_loop_11 e stoq_offer_id kw chunks
                  \<lparr>skipped_invalid = [], added_ok = []\<rparr> None w of
             (Inl x, w1) \<Rightarrow> (Inl x, w1)
           | (Inr (a, first_error), w1) \<Rightarrow>
               (Inr (overall_ok a,
                     summarise stoq_offer_id (length variant_ids) write_skipped_file a,
                     first_error), w1)))"

definition call_stoq_add_variants_12 ::
  "env \<Rightarrow> string \<Rightarrow> int list \<Rightarrow> kwargs \<Rightarrow> int \<Rightarrow> bool \<Rightarrow> world
     \<Rightarrow> ((exn + bool \<times> summary \<times> string option) \<times> world) option" where
  "call_stoq_add_variants_12 e stoq_offer_id variant_ids kw chunk_size write_skipped_file w =
     (case chunks_of_range chunk_size variant_ids of
        Inl x \<Rightarrow> Some (Inl x, w)
      | Inr chunks \<Rightarrow>
          (case add_loop_12 e stoq_offer_id kw chunks
                  \<lparr>skipped_invalid = [], added_ok = []\<rparr> None w of
             None \<Rightarrow> None
           | Some (Inl x, w1) \<Rightarrow> Some (Inl x, w1)
           | Some (Inr (a, first_error), w1) \<Rightarrow>
               Some (Inr (overall_ok a,
                          summarise stoq_offer_id (length variant_ids) write_skipped_file a,
                          first_error), w1)))"


section \<open>The set differencer of the existing-offer scripts\<close>

text \<open>
  The values found under \<^verbatim>\<open>shopify_variant_id\<close> and \<^verbatim>\<open>variant_id\<close> in the JSON
  answers: null, an integer or a string (other JSON kinds are left out). Both readers turn
  every value into a string with \<^verbatim>\<open>str\<close>.
\<close>

datatype jv = JNull | JInt int | JStr string

fun py_str :: "jv \<Rightarrow> string" where
  "py_str JNull = ''None''"
| "py_str (JInt n) = str_int n"
| "py_str (JStr s) = s"





text \<open>
  \<^verbatim>\<open>_coerce_ids_to_int\<close> returns the list \<^verbatim>\<open>ok\<close>; the list \<^verbatim>\<open>bad\<close> only reaches the
  standard output, in one line that shows its length, its first ten members and whether
  there are more. The second component is that line, \<open>None\<close> when nothing is printed.
\<close>

datatype printed = SkippingNonNumeric nat "string list" bool

fun coerce_loop :: "string list \<Rightarrow> int list \<Rightarrow> string list \<Rightarrow> int list \<times> string list" where
  "coerce_loop [] ok bad = (ok, bad)"
| "coerce_loop (x # xs) ok bad =
     (case py_int x of
        Some n \<Rightarrow> coerce_loop xs (ok @ [n]) bad
      | None \<Rightarrow> coerce_loop xs ok (bad @ [x]))"

definition coerce_ids_to_int :: "string list \<Rightarrow> int list \<times> printed option" where
  "coerce_ids_to_int ids =
     (case coerce_loop ids [] [] of
        (ok, bad) \<Rightarrow>
          (ok, if bad \<noteq> [] then Some (SkippingNonNumeric (length bad) (take 10 bad) (length bad > 10))
               else None))"

text \<open>
  The comparison in \<^verbatim>\<open>main\<close>: two sets of strings, their differences as sorted lists
  (Python orders strings by code point, lexicographically), then the coercion to integers.
\<close>

definition to_remove :: "string list \<Rightarrow> string list \<Rightarrow> string list" where
  "to_remove variant_ids_from_api variants_from_db =
     sorted_list_of_set (set variant_ids_from_api - set variants_from_db)"

definition to_add :: "string list \<Rightarrow> string list \<Rightarrow> string list" where
  "to_add variant_ids_from_api variants_from_db =
     sorted_list_of_set (set variants_from_db - set variant_ids_from_api)"

definition to_remove_int :: "string list \<Rightarrow> string list \<Rightarrow> int list" where
  "to_remove_int variant_ids_from_api variants_from_db =
     fst (coerce_ids_to_int (to_remove variant_ids_from_api variants_from_db))"

definition to_add_int :: "string list \<Rightarrow> string list \<Rightarrow> int list" where
  "to_add_int variant_ids_from_api variants_from_db =
     fst (coerce_ids_to_int (to_add variant_ids_from_api variants_from_db))"

subsection \<open>\<^verbatim>\<open>main\<close> of the add script (step 12)\<close>




definition main_kwargs :: kwargs where
  "main_kwargs = \<lparr>preorder_max_count = None, timeout = 90, max_retries = 3, base_backoff = 1\<rparr>"




section \<open>The new-plan script (step 9)\<close>

definition CHUNK_SIZE :: nat where "CHUNK_SIZE = 50"
definition MAX_RETRIES :: nat where "MAX_RETRIES = 3"
definition INITIAL_BACKOFF :: rat where "INITIAL_BACKOFF = 1"

text \<open>
  \<^verbatim>\<open>_post_with_retries\<close>: the loop \<^verbatim>\<open>for attempt in range(1, MAX_RETRIES + 1)\<close> with
  its variables \<^verbatim>\<open>attempt\<close> and \<^verbatim>\<open>backoff\<close> as arguments (1 and
  \<^verbatim>\<open>INITIAL_BACKOFF\<close> at the call). The statement after the loop is only reached by a
  range that is empty from the start, where \<^verbatim>\<open>resp\<close> is unbound.
\<close>

function post_with_retries_09 ::
  "env \<Rightarrow> request \<Rightarrow> nat \<Rightarrow> rat \<Rightarrow> world \<Rightarrow> (exn + response) \<times> world" where
  "post_with_retries_09 e rq attempt backoff w =
     (if MAX_RETRIES < attempt then (Inl UnboundLocalError, w)
      else
        case post e rq w of
          (Answers resp, w1) \<Rightarrow>
            if 200 \<le> status_code resp \<and> status_code resp < 300 then (Inr resp, w1)
            else if status_code resp \<in> {429, 500, 502, 503, 504} \<and> attempt < MAX_RETRIES then
              (case sleep backoff w1 of
                 (Inl x, w2) \<Rightarrow> (Inl x, w2)
               | (Inr _, w2) \<Rightarrow> post_with_retries_09 e rq (attempt + 1) (backoff * 2) w2)
            else (Inr resp, w1)
        | (Raises, w1) \<Rightarrow>
            if attempt = MAX_RETRIES then (Inl RequestException, w1)
            else
              (case sleep backoff w1 of
                 (Inl x, w2) \<Rightarrow> (Inl x, w2)
               | (Inr _, w2) \<Rightarrow> post_with_retries_09 e rq (attempt + 1) (backoff * 2) w2))"
  by pat_completeness auto
termination
  by (relation "measure (\<lambda>(e, rq, attempt, backoff, w). Suc MAX_RETRIES - attempt)") auto

declare post_with_retries_09.simps [simp del]

definition post_09 :: "env \<Rightarrow> string \<Rightarrow> int list \<Rightarrow> world \<Rightarrow> (exn + response) \<times> world" where
  \<comment> \<open>\<^verbatim>\<open>_post_with_retries(url, headers, payload_for(ids))\<close>\<close>
  "post_09 e plan_id ids w =
     post_with_retries_09 e
       \<lparr>url_offer_id = plan_id, shopify_variant_ids = ids, payload_preorder_max_count = None\<rparr>
       1 INITIAL_BACKOFF w"

definition is_2xx :: "response \<Rightarrow> bool" where
  "is_2xx resp = (200 \<le> status_code resp \<and> status_code resp < 300)"

text \<open>
  \<^verbatim>\<open>_add_chunk_or_bisect\<close>, in two parts. The first is the branch for status 422 up to
  the choice of \<^verbatim>\<open>batch_to_bisect\<close>: it either returns from the function (\<open>Inl\<close> of the
  returned pair) or continues to the bisection with the chosen batch (\<open>Inr\<close>).
\<close>

definition strip_existing ::
  "env \<Rightarrow> string \<Rightarrow> int list \<Rightarrow> response \<Rightarrow> world
     \<Rightarrow> (exn + (bool \<times> int list) + int list) \<times> world" where
  "strip_existing e plan_id batch resp w =
     (if existing_variants resp \<noteq> [] then
        let remainder = filter (\<lambda>v. v \<notin> set (existing_variants resp)) batch in
        if remainder = [] then (Inr (Inl (True, [])), w)
        else
          case post_09 e plan_id remainder w of
            (Inl x, w1) \<Rightarrow> (Inl x, w1)
          | (Inr resp2, w1) \<Rightarrow>
              if is_2xx resp2 then (Inr (Inl (True, [])), w1)
              else if status_code resp2 \<noteq> 422 then (Inr (Inl (False, remainder)), w1)
              else if existing_variants resp2 \<noteq> [] then
                let remainder2 = filter (\<lambda>v. v \<notin> set (existing_variants resp2)) remainder in
                if remainder2 = [] then (Inr (Inl (True, [])), w1)
                else
                  case post_09 e plan_id remainder2 w1 of
                    (Inl x, w2) \<Rightarrow> (Inl x, w2)
                  | (Inr resp3, w2) \<Rightarrow>
                      if is_2xx resp3 then (Inr (Inl (True, [])), w2)
                      else (Inr (Inr remainder2), w2)
              else (Inr (Inr remainder), w1)
      else (Inr (Inr batch), w))"

function add_chunk_or_bisect ::
  "env \<Rightarrow> string \<Rightarrow> int list \<Rightarrow> world \<Rightarrow> (exn + bool \<times> int list) \<times> world" where
  "add_chunk_or_bisect e plan_id batch w =
     (if batch = [] then (Inr (True, []), w)
      else
        case post_09 e plan_id batch w of
          (Inl x, w1) \<Rightarrow> (Inl x, w1)
        | (Inr resp, w1) \<Rightarrow>
            if is_2xx resp then (Inr (True, []), w1)
            else if status_code resp = 422 then
              (case strip_existing e plan_id batch resp w1 of
                 (Inl x, w2) \<Rightarrow> (Inl x, w2)
               | (Inr (Inl returned), w2) \<Rightarrow> (Inr returned, w2)
               | (Inr (Inr batch_to_bisect), w2) \<Rightarrow>
                   if length batch_to_bisect = 1 then (Inr (True, [hd batch_to_bisect]), w2)
                   else
                     let mid = length batch_to_bisect div 2;
                         left = take mid batch_to_bisect;
                         right = drop mid batch_to_bisect
                     in
                       case add_chunk_or_bisect e plan_id left w2 of
                         (Inl x, w3) \<Rightarrow> (Inl x, w3)
                       | (Inr (ok_left, skipped_left), w3) \<Rightarrow>
                           (case add_chunk_or_bisect e plan_id right w3 of
                              (Inl x, w4) \<Rightarrow> (Inl x, w4)
                            | (Inr (ok_right, skipped_right), w4) \<Rightarrow>
                                (Inr (ok_left \<and> ok_right, skipped_left @ skipped_right), w4)))
            else (Inr (False, batch), w1))"
  by pat_completeness auto
termination
proof -
  have shorter: "b \<noteq> [] \<and> length b \<le> length batch"
    if "(Inr (Inr b), w') = strip_existing e plan_id batch resp w" "batch \<noteq> []"
    for e plan_id batch resp w b w'
    using that(1) [symmetric] that(2)
    by (auto simp: strip_existing_def Let_def split: if_splits prod.splits sum.splits
          intro: order_trans [OF length_filter_le length_filter_le])
  have half: "length b - length b div 2 < length b"
    if "b \<noteq> []" "length b \<noteq> Suc 0" for b :: "int list"
    using that by (cases b) auto
  show ?thesis
  proof (relation "measure (\<lambda>(e, plan_id, batch, w). length batch)", goal_cases)
    case 1
    show ?case by simp
  next
    case (2 e plan_id batch w p1 w1 resp p2 w2 r b)
    then have "b \<noteq> [] \<and> length b \<le> length batch"
      using shorter [of b w2 e plan_id batch resp w1] by simp
    with 2 show ?case by (cases b) auto
  next
    case (3 e plan_id batch w p1 w1 resp p2 w2 r b)
    then have b: "b \<noteq> [] \<and> length b \<le> length batch"
      using shorter [of b w2 e plan_id batch resp w1] by simp
    from 3 b have "length b - length b div 2 < length b"
      by (intro half) auto
    with b 3 show ?case by simp
  qed
qed

declare add_chunk_or_bisect.simps [simp del]


subsection \<open>\<^verbatim>\<open>stoq_add_variants\<close>, \<^verbatim>\<open>fetch_variant_ids_for_offer\<close> and \<^verbatim>\<open>main\<close>\<close>

text \<open>The dictionaries that \<^verbatim>\<open>stoq_add_variants\<close> returns beside its flag.\<close>

datatype info =
  NoVariantsToAdd
| AllChunksProcessed "int list"
| HttpError "int list" "int list"

text \<open>
  The loop over the chunks with its variables \<^verbatim>\<open>known_existing\<close> and
  \<^verbatim>\<open>skipped_invalid\<close>. \<open>HttpError failed_chunk skipped_so_far\<close> is the early return.
\<close>

fun add_chunks_09 ::
  "env \<Rightarrow> string \<Rightarrow> int list list \<Rightarrow> int set \<Rightarrow> int list \<Rightarrow> world
     \<Rightarrow> (exn + bool \<times> info) \<times> world" where
  "add_chunks_09 e plan_id [] known_existing skipped w =
     (Inr (True, AllChunksProcessed (sorted_list_of_set (set skipped))), w)"
| "add_chunks_09 e plan_id (raw_batch # rest) known_existing skipped w =
     (let batch = filter (\<lambda>v. v \<notin> known_existing) raw_batch in
      if batch = [] then add_chunks_09 e plan_id rest known_existing skipped w
      else
        case add_chunk_or_bisect e plan_id batch w of
          (Inl x, w1) \<Rightarrow> (Inl x, w1)
        | (Inr (ok, skipped_now), w1) \<Rightarrow>
            let skipped' = (if skipped_now \<noteq> [] then skipped @ skipped_now else skipped);
                known' = (if skipped_now \<noteq> [] then known_existing \<union> set skipped_now
                          else known_existing)
            in if ok then add_chunks_09 e plan_id rest known' skipped' w1
               else (Inr (False, HttpError batch (take 200 skipped')), w1))"

definition stoq_add_variants ::
  "env \<Rightarrow> string \<Rightarrow> int list \<Rightarrow> world \<Rightarrow> (exn + bool \<times> info) \<times> world" where
  "stoq_add_variants e plan_id variant_ids w =
     (if variant_ids = [] then (Inr (True, NoVariantsToAdd), w)
      else add_chunks_09 e plan_id (chunked CHUNK_SIZE variant_ids) {} [] w)"







section \<open>Test doubles\<close>

text \<open>Remote services and environments for the concrete runs below.\<close>

definition answer :: "int \<Rightarrow> string \<Rightarrow> response" where
  "answer st txt =
     \<lparr>status_code = st, body_text = txt, retry_after = None, existing_variants = []\<rparr>"

definition test_env :: "(world \<Rightarrow> request \<Rightarrow> reply \<times> nat) \<Rightarrow> env" where
  "test_env r = \<lparr>STOQ_API_BASE = Some ''https://stoq.test'', remote = r, float_of = (\<lambda>s. None)\<rparr>"

definition w0 :: world where
  "w0 = \<lparr>calls = [], sleeps = [], clock = 0\<rparr>"


text \<open>
  A service on which every batch that holds a member of \<open>bad\<close> fails with 422 and the
  given text, and a service that gives the same reply to every request.
\<close>

definition bad_remote :: "int list \<Rightarrow> string \<Rightarrow> world \<Rightarrow> request \<Rightarrow> reply \<times> nat" where
  "bad_remote bad txt w rq =
     (if set (shopify_variant_ids rq) \<inter> set bad \<noteq> {} then (Answers (answer 422 txt), 0)
      else (Answers (answer 200 ''{}''), 0))"

definition always_remote :: "reply \<Rightarrow> world \<Rightarrow> request \<Rightarrow> reply \<times> nat" where
  "always_remote r w rq = (r, 0)"

text \<open>
  The overall-success predicate as the specification words it, over the counts of the
  summary.
\<close>

definition claimed_overall_ok :: "summary \<Rightarrow> bool" where
  "claimed_overall_ok s = (skipped_invalid_count s = 0 \<or> added_ok_count s \<ge> 1)"


text \<open>
  The value of a digit string read from the left, starting from \<open>acc\<close>; and the two
  representations of the integer \<open>n\<close> that the readers may find: the JSON integer and
  the string of its decimal digits.
\<close>

definition digits_value :: "nat \<Rightarrow> string \<Rightarrow> nat" where
  "digits_value acc ds = foldl (\<lambda>a c. 10 * a + digit_val c) acc ds"

fun is_repr :: "int \<Rightarrow> jv \<Rightarrow> bool" where
  "is_repr n (JInt m) = (m = n)"
| "is_repr n (JStr s) = (s = str_int n)"
| "is_repr n JNull = False"

definition replace_value :: "jv \<Rightarrow> jv \<Rightarrow> jv list \<Rightarrow> jv list" where
  "replace_value a b vs = map (\<lambda>v. if v = a then b else v) vs"



text \<open>
  A service that rejects every batch holding a member of \<open>ex\<close> with status 422 and lists
  the members of \<open>ex\<close> under \<^verbatim>\<open>existing_variants\<close>.
\<close>

definition existing_remote :: "int list \<Rightarrow> world \<Rightarrow> request \<Rightarrow> reply \<times> nat" where
  "existing_remote ex w rq =
     (if set (shopify_variant_ids rq) \<inter> set ex \<noteq> {}
      then (Answers \<lparr>status_code = 422, body_text = ''already associated'',
                      retry_after = None, existing_variants = ex\<rparr>, 0)
      else (Answers (answer 200 ''{}''), 0))"

text \<open>The world in which the listed batches have been posted for one offer, at no cost of time.\<close>

definition w_posted :: "string \<Rightarrow> int list list \<Rightarrow> world" where
  "w_posted oid batches =
     \<lparr>calls = map (\<lambda>b. \<lparr>url_offer_id = oid, shopify_variant_ids = b,
                          payload_preorder_max_count = None\<rparr>) batches,
      sleeps = [], clock = 0\<rparr>"

definition resp_existing :: "int list \<Rightarrow> response" where
  "resp_existing ex =
     \<lparr>status_code = 422, body_text = ''already associated'', retry_after = None,
      existing_variants = ex\<rparr>"























section \<open>The overall-success flag of \<^verbatim>\<open>call_stoq_add_variants\<close>\<close>

lemma overall_ok_iff: "overall_ok a = (0 < length (added_ok a))"
  unfolding overall_ok_def by (cases "added_ok a") auto

lemma flag_11:
  assumes "fst (call_stoq_add_variants_11 e oid ids kw cs wsf w) = Inr (ok, s, fe)"
  shows "ok = (0 < added_ok_count s)"
proof -
  from assms obtain a where "ok = overall_ok a" "s = summarise oid (length ids) wsf a"
    by (auto simp: call_stoq_add_variants_11_def split: sum.splits prod.splits)
  then show ?thesis by (simp add: overall_ok_iff summarise_def)
qed

lemma flag_12:
  assumes "map_option fst (call_stoq_add_variants_12 e oid ids kw cs wsf w) = Some (Inr (ok, s, fe))"
  shows "ok = (0 < added_ok_count s)"
proof -
  from assms obtain a where "ok = overall_ok a" "s = summarise oid (length ids) wsf a"
    by (auto simp: call_stoq_add_variants_12_def split: sum.splits prod.splits option.splits)
  then show ?thesis by (simp add: overall_ok_iff summarise_def)
qed

lemma one_added_two_skipped_11:
  "fst (call_stoq_add_variants_11 (test_env (bad_remote [2, 3] ''already associated''))
         ''offer-42'' [1, 2, 3] main_kwargs 1 True w0)
   = Inr (True,
          \<lparr>summary_offer_id = ''offer-42'', requested_count = 3, added_ok_count = 1,
           skipped_invalid_count = 2, added_ok_sample = [1], skipped_invalid_sample = [2, 3],
           skipped_file = Some [2, 3]\<rparr>,
          Some (some_ids_error (Some ''already associated'')))"
  by code_simp

lemma one_added_two_skipped_12:
  "map_option fst
     (call_stoq_add_variants_12 (test_env (bad_remote [2, 3] ''already associated''))
        ''offer-42'' [1, 2, 3] main_kwargs 1 True w0)
   = Some (Inr (True,
          \<lparr>summary_offer_id = ''offer-42'', requested_count = 3, added_ok_count = 1,
           skipped_invalid_count = 2, added_ok_sample = [1], skipped_invalid_sample = [2, 3],
           skipped_file = Some [2, 3]\<rparr>,
          Some (some_ids_error (Some ''already associated''))))"
  by code_simp

text \<open>
  Claim C6, as the code has it. Whenever \<^verbatim>\<open>call_stoq_add_variants\<close> returns (in the
  remove script and in the add script alike), its flag is
  \<^verbatim>\<open>(len(added_ok) > 0) and (len(skipped_invalid) == 0 or len(added_ok) >= 1)\<close>, which
  is the same as \<^verbatim>\<open>len(added_ok) > 0\<close>. So a run that adds one member and skips every
  other one is reported as a success: such a run exists (three members in chunks of one,
  the second and the third rejected).
\<close>

theorem overall_flag_is_added_nonempty:
  "(fst (call_stoq_add_variants_11 e oid ids kw cs wsf w) = Inr (ok, s, fe) \<longrightarrow>
      ok = (0 < added_ok_count s \<and> (skipped_invalid_count s = 0 \<or> 1 \<le> added_ok_count s))
      \<and> ok = (0 < added_ok_count s))
   \<and> (map_option fst (call_stoq_add_variants_12 e oid ids kw cs wsf w) = Some (Inr (ok, s, fe)) \<longrightarrow>
      ok = (0 < added_ok_count s \<and> (skipped_invalid_count s = 0 \<or> 1 \<le> added_ok_count s))
      \<and> ok = (0 < added_ok_count s))
   \<and> fst (call_stoq_add_variants_11 (test_env (bad_remote [2, 3] ''already associated''))
         ''offer-42'' [1, 2, 3] main_kwargs 1 True w0)
       = Inr (True,
          \<lparr>summary_offer_id = ''offer-42'', requested_count = 3, added_ok_count = 1,
           skipped_invalid_count = 2, added_ok_sample = [1], skipped_invalid_sample = [2, 3],
           skipped_file = Some [2, 3]\<rparr>,
          Some (some_ids_error (Some ''already associated'')))"
proof (intro conjI impI)
  assume "fst (call_stoq_add_variants_11 e oid ids kw cs wsf w) = Inr (ok, s, fe)"
  then have "ok = (0 < added_ok_count s)" by (rule flag_11)
  then show "ok = (0 < added_ok_count s \<and> (skipped_invalid_count s = 0 \<or> 1 \<le> added_ok_count s))"
    and "ok = (0 < added_ok_count s)" by auto
next
  assume "map_option fst (call_stoq_add_variants_12 e oid ids kw cs wsf w) = Some (Inr (ok, s, fe))"
  then have "ok = (0 < added_ok_count s)" by (rule flag_12)
  then show "ok = (0 < added_ok_count s \<and> (skipped_invalid_count s = 0 \<or> 1 \<le> added_ok_count s))"
    and "ok = (0 < added_ok_count s)" by auto
next
  show "fst (call_stoq_add_variants_11 (test_env (bad_remote [2, 3] ''already associated''))
         ''offer-42'' [1, 2, 3] main_kwargs 1 True w0)
       = Inr (True,
          \<lparr>summary_offer_id = ''offer-42'', requested_count = 3, added_ok_count = 1,
           skipped_invalid_count = 2, added_ok_sample = [1], skipped_invalid_sample = [2, 3],
           skipped_file = Some [2, 3]\<rparr>,
          Some (some_ids_error (Some ''already associated'')))"
    by (rule one_added_two_skipped_11)
qed

theorem overall_flag_is_added_nonempty_witness:
  "fst (call_stoq_add_variants_11 (test_env (bad_remote [2, 3] ''already associated''))
         ''offer-42'' [1, 2, 3] main_kwargs 1 True w0)
     = Inr (True,
          \<lparr>summary_offer_id = ''offer-42'', requested_count = 3, added_ok_count = 1,
           skipped_invalid_count = 2, added_ok_sample = [1], skipped_invalid_sample = [2, 3],
           skipped_file = Some [2, 3]\<rparr>,
          Some (some_ids_error (Some ''already associated'')))
   \<and> map_option fst
        (call_stoq_add_variants_12 (test_env (bad_remote [2, 3] ''already associated''))
           ''offer-42'' [1, 2, 3] main_kwargs 1 True w0)
     = Some (Inr (True,
          \<lparr>summary_offer_id = ''offer-42'', requested_count = 3, added_ok_count = 1,
           skipped_invalid_count = 2, added_ok_sample = [1], skipped_invalid_sample = [2, 3],
           skipped_file = Some [2, 3]\<rparr>,
          Some (some_ids_error (Some ''already associated''))))
   \<and> True = (0 < (1::nat) \<and> ((2::nat) = 0 \<or> 1 \<le> (1::nat)))"
  using overall_flag_is_added_nonempty
    [of "test_env (bad_remote [2, 3] ''already associated'')" "''offer-42''" "[1, 2, 3]"
        main_kwargs 1 True w0 True
        "\<lparr>summary_offer_id = ''offer-42'', requested_count = 3, added_ok_count = 1,
           skipped_invalid_count = 2, added_ok_sample = [1], skipped_invalid_sample = [2, 3],
           skipped_file = Some [2, 3]\<rparr>"
        "Some (some_ids_error (Some ''already associated''))"]
    one_added_two_skipped_11 one_added_two_skipped_12
  by simp

text \<open>
  The predicate of the specification differs from the flag on a run that adds nothing and
  skips nothing: one member, answered with status 400.
\<close>

lemma nothing_added_run:
  "fst (call_stoq_add_variants_11 (test_env (always_remote (Answers (answer 400 ''bad request''))))
         ''offer-42'' [1] main_kwargs 75 True w0)
   = Inr (False,
          \<lparr>summary_offer_id = ''offer-42'', requested_count = 1, added_ok_count = 0,
           skipped_invalid_count = 0, added_ok_sample = [], skipped_invalid_sample = [],
           skipped_file = None\<rparr>,
          Some ''HTTP 400: bad request'')"
  by code_simp

theorem overall_flag_counterexample:
  "fst (call_stoq_add_variants_11 (test_env (always_remote (Answers (answer 400 ''bad request''))))
         ''offer-42'' [1] main_kwargs 75 True w0)
   = Inr (False,
          \<lparr>summary_offer_id = ''offer-42'', requested_count = 1, added_ok_count = 0,
           skipped_invalid_count = 0, added_ok_sample = [], skipped_invalid_sample = [],
           skipped_file = None\<rparr>,
          Some ''HTTP 400: bad request'')
   \<and> claimed_overall_ok
         \<lparr>summary_offer_id = ''offer-42'', requested_count = 1, added_ok_count = 0,
           skipped_invalid_count = 0, added_ok_sample = [], skipped_invalid_sample = [],
           skipped_file = None\<rparr>"
  using nothing_added_run by (simp add: claimed_overall_ok_def)

section \<open>The base case of the bisection\<close>














section \<open>The set differencer\<close>

lemma set_to_add: "set (to_add api db) = set db - set api"
  by (simp add: to_add_def)

lemma set_to_remove: "set (to_remove api db) = set api - set db"
  by (simp add: to_remove_def)

lemma sorted_to_add: "sorted (to_add api db) \<and> distinct (to_add api db)"
  by (simp add: to_add_def)

lemma sorted_to_remove: "sorted (to_remove api db) \<and> distinct (to_remove api db)"
  by (simp add: to_remove_def)

lemma offer_42_strings:
  "to_add [''101'', ''103''] [''100'', ''101'', ''102''] = [''100'', ''102'']
   \<and> to_remove [''101'', ''103''] [''100'', ''101'', ''102''] = [''103'']"
  by code_simp

lemma offer_42_ints:
  "to_add_int [''101'', ''103''] [''100'', ''101'', ''102''] = [100, 102]
   \<and> to_remove_int [''101'', ''103''] [''100'', ''101'', ''102''] = [103]"
  by code_simp

text \<open>
  Claim C3, as the code has it. The readers hand the differencer two lists of strings,
  \<^verbatim>\<open>variant_ids_from_api\<close> (remote) and \<^verbatim>\<open>variants_from_db\<close> (desired). For all such
  lists \<^verbatim>\<open>to_add\<close> holds exactly the desired strings that are not remote and
  \<^verbatim>\<open>to_remove\<close> exactly the remote strings that are not desired, each without
  repetition and ascending in the order of strings (code points, lexicographic). For
  desired 100, 101, 102 and remote 101, 103 the lists are [100, 102] and [103], as strings
  and after the coercion to integers.
\<close>

theorem differencer_sorted_differences:
  "set (to_add api db) = set db - set api
   \<and> set (to_remove api db) = set api - set db
   \<and> sorted (to_add api db) \<and> distinct (to_add api db)
   \<and> sorted (to_remove api db) \<and> distinct (to_remove api db)
   \<and> to_add [''101'', ''103''] [''100'', ''101'', ''102''] = [''100'', ''102'']
   \<and> to_remove [''101'', ''103''] [''100'', ''101'', ''102''] = [''103'']
   \<and> to_add_int [''101'', ''103''] [''100'', ''101'', ''102''] = [100, 102]
   \<and> to_remove_int [''101'', ''103''] [''100'', ''101'', ''102''] = [103]"
  using set_to_add [of api db] set_to_remove [of api db] sorted_to_add [of api db]
    sorted_to_remove [of api db] offer_42_strings offer_42_ints
  by simp

text \<open>
  The order is not the order of the integers: with nothing remote and the desired members
  9 and 10 the list sent to the add operation is [10, 9].
\<close>

theorem differencer_order_counterexample:
  "to_add_int [] [''9'', ''10''] = [10, 9] \<and> \<not> sorted (to_add_int [] [''9'', ''10''])"
  by code_simp

section \<open>Identity of members in the differencer\<close>

lemma of_char_digit: "k < 10 \<Longrightarrow> (of_char (char_of (48 + (k::nat))) :: nat) = 48 + k"
  by simp

lemma is_digit_char: "k < 10 \<Longrightarrow> is_digit (char_of (48 + (k::nat)))"
  by (simp add: is_digit_def Let_def)

lemma digit_val_char: "k < 10 \<Longrightarrow> digit_val (char_of (48 + (k::nat))) = k"
  by (simp add: digit_val_def)

lemma not_space_digit: "is_digit c \<Longrightarrow> \<not> is_space c"
  by (auto simp: is_digit_def is_space_def Let_def)

lemma parse_digits_all:
  "\<forall>c \<in> set ds. is_digit c \<Longrightarrow> parse_digits acc ds = Some (digits_value acc ds)"
  by (induction acc ds rule: parse_digits.induct) (auto simp: digits_value_def)

lemma str_nat_digits: "\<forall>c \<in> set (str_nat n). is_digit c"
  by (induction n rule: str_nat.induct) (subst str_nat.simps, auto simp: is_digit_char)

lemma str_nat_nonempty: "str_nat n \<noteq> []"
  by (subst str_nat.simps) simp

lemma digits_value_str_nat: "digits_value 0 (str_nat n) = n"
proof (induction n rule: str_nat.induct)
  case (1 n)
  show ?case
  proof (cases "n < 10")
    case True
    then show ?thesis by (subst str_nat.simps) (simp add: digits_value_def digit_val_char)
  next
    case False
    with 1 have "digits_value 0 (str_nat (n div 10)) = n div 10" by simp
    with False show ?thesis
      by (subst str_nat.simps) (simp add: digits_value_def digit_val_char)
  qed
qed

lemma parse_nat_str_nat: "parse_nat (str_nat n) = Some n"
proof -
  obtain c cs where cs: "str_nat n = c # cs" using str_nat_nonempty [of n] by (cases "str_nat n") auto
  have d: "\<forall>c \<in> set (c # cs). is_digit c" using str_nat_digits [of n] cs by simp
  have "parse_nat (c # cs) = Some (digits_value (digit_val c) cs)"
    using d by (simp add: parse_nat_def parse_digits_all)
  also have "digits_value (digit_val c) cs = digits_value 0 (c # cs)"
    by (simp add: digits_value_def)
  finally show ?thesis using cs digits_value_str_nat [of n] by simp
qed

lemma strip_no_space:
  assumes "s \<noteq> []" "\<not> is_space (hd s)" "\<not> is_space (last s)"
  shows "strip s = s"
proof -
  have "dropWhile is_space s = s" using assms by (cases s) auto
  moreover have "dropWhile is_space (rev s) = rev s"
    using assms by (cases "rev s") (auto simp: last_rev [symmetric] hd_rev)
  ultimately show ?thesis by (simp add: strip_def)
qed

lemma hd_str_nat_digit: "is_digit (hd (str_nat n))"
  using str_nat_digits [of n] str_nat_nonempty [of n] by (cases "str_nat n") auto

lemma last_str_nat_digit: "is_digit (last (str_nat n))"
  using str_nat_digits [of n] str_nat_nonempty [of n] by (meson last_in_set)

lemma digit_not_sign: "is_digit c \<Longrightarrow> c \<noteq> CHR ''-'' \<and> c \<noteq> CHR ''+''"
  by (auto simp: is_digit_def)

lemma py_int_str_nat: "py_int (str_nat n) = Some (int n)"
proof -
  have s: "strip (str_nat n) = str_nat n"
    by (intro strip_no_space str_nat_nonempty not_space_digit hd_str_nat_digit last_str_nat_digit)
  obtain c cs where cs: "str_nat n = c # cs"
    using str_nat_nonempty [of n] by (cases "str_nat n") auto
  then have "is_digit c" using hd_str_nat_digit [of n] by simp
  then have "c \<noteq> CHR ''-''" "c \<noteq> CHR ''+''" using digit_not_sign by auto
  moreover have "strip (c # cs) = c # cs" using s cs by simp
  moreover have "parse_nat (c # cs) = Some n" using parse_nat_str_nat [of n] cs by simp
  ultimately show ?thesis by (simp add: py_int_def cs)
qed

lemma py_int_str_int: "py_int (str_int n) = Some n"
proof (cases "n < 0")
  case True
  have "\<not> is_space (CHR ''-'')" by (simp add: is_space_def)
  then have "strip (CHR ''-'' # str_nat (nat (- n))) = CHR ''-'' # str_nat (nat (- n))"
    using last_str_nat_digit [of "nat (- n)"] str_nat_nonempty [of "nat (- n)"]
    by (intro strip_no_space) (auto dest: not_space_digit)
  with True show ?thesis
    by (simp add: py_int_def str_int_def parse_nat_str_nat)
next
  case False
  then show ?thesis by (simp add: str_int_def py_int_str_nat)
qed

lemma py_str_repr: "is_repr n a \<Longrightarrow> py_str a = str_int n"
  by (cases a) auto

lemma map_py_str_replace:
  "is_repr n a \<Longrightarrow> is_repr n b \<Longrightarrow> map py_str (replace_value a b vs) = map py_str vs"
  by (induction vs) (auto simp: replace_value_def py_str_repr)

lemma repr_in_both:
  assumes "is_repr n a" "is_repr n b" "a \<in> set api" "b \<in> set db"
  shows "str_int n \<notin> set (to_add (map py_str api) (map py_str db))"
    and "str_int n \<notin> set (to_remove (map py_str api) (map py_str db))"
proof -
  have "str_int n \<in> py_str ` set api" "str_int n \<in> py_str ` set db"
    using assms py_str_repr by (metis imageI)+
  then show "str_int n \<notin> set (to_add (map py_str api) (map py_str db))"
    and "str_int n \<notin> set (to_remove (map py_str api) (map py_str db))"
    by (simp_all add: set_to_add set_to_remove)
qed

text \<open>
  Claim C2, as the code has it. The readers turn every value into a string with
  \<^verbatim>\<open>str\<close> and the differencer compares these strings. The integer 123 and the string
  "123" are therefore the same member: replacing one representation of an integer \<open>n\<close> by
  the other, on either side, changes neither \<^verbatim>\<open>to_add\<close> nor \<^verbatim>\<open>to_remove\<close>; a member
  present on both sides in these representations appears in neither list; and the
  coercion reads both as \<open>n\<close>. A string with a trailing ".0" is no such representation.
\<close>

theorem differencer_int_and_string_agree:
  "(is_repr n a \<and> is_repr n b \<longrightarrow>
      to_add (map py_str (replace_value a b api)) (map py_str db)
        = to_add (map py_str api) (map py_str db)
    \<and> to_add (map py_str api) (map py_str (replace_value a b db))
        = to_add (map py_str api) (map py_str db)
    \<and> to_remove (map py_str (replace_value a b api)) (map py_str db)
        = to_remove (map py_str api) (map py_str db)
    \<and> to_remove (map py_str api) (map py_str (replace_value a b db))
        = to_remove (map py_str api) (map py_str db)
    \<and> py_int (py_str a) = Some n \<and> py_int (py_str b) = Some n)
   \<and> (is_repr n a \<and> is_repr n b \<and> a \<in> set api \<and> b \<in> set db \<longrightarrow>
      str_int n \<notin> set (to_add (map py_str api) (map py_str db))
    \<and> str_int n \<notin> set (to_remove (map py_str api) (map py_str db)))"
proof (intro conjI impI)
  assume r: "is_repr n a \<and> is_repr n b"
  then have m: "map py_str (replace_value a b api) = map py_str api"
    "map py_str (replace_value a b db) = map py_str db"
    by (simp_all add: map_py_str_replace [of n])
  show "to_add (map py_str (replace_value a b api)) (map py_str db)
        = to_add (map py_str api) (map py_str db)" by (simp only: m)
  show "to_add (map py_str api) (map py_str (replace_value a b db))
        = to_add (map py_str api) (map py_str db)" by (simp only: m)
  show "to_remove (map py_str (replace_value a b api)) (map py_str db)
        = to_remove (map py_str api) (map py_str db)" by (simp only: m)
  show "to_remove (map py_str api) (map py_str (replace_value a b db))
        = to_remove (map py_str api) (map py_str db)" by (simp only: m)
  show "py_int (py_str a) = Some n" "py_int (py_str b) = Some n"
    using r by (simp_all add: py_str_repr [of n] py_int_str_int)
next
  assume "is_repr n a \<and> is_repr n b \<and> a \<in> set api \<and> b \<in> set db"
  then show "str_int n \<notin> set (to_add (map py_str api) (map py_str db))"
    and "str_int n \<notin> set (to_remove (map py_str api) (map py_str db))"
    using repr_in_both [of n a b api db] by simp_all
qed

lemma repr_123: "is_repr 123 (JInt 123) \<and> is_repr 123 (JStr ''123'')"
  by code_simp

theorem differencer_int_and_string_agree_witness:
  "is_repr 123 (JInt 123) \<and> is_repr 123 (JStr ''123'')
   \<and> JInt 123 \<in> set [JInt 123, JInt 7] \<and> JStr ''123'' \<in> set [JStr ''123'', JStr ''8'']
   \<and> to_add (map py_str (replace_value (JInt 123) (JStr ''123'') [JInt 123, JInt 7]))
        (map py_str [JStr ''123'', JStr ''8''])
      = to_add (map py_str [JInt 123, JInt 7]) (map py_str [JStr ''123'', JStr ''8''])
   \<and> py_int (py_str (JInt 123)) = Some 123 \<and> py_int (py_str (JStr ''123'')) = Some 123
   \<and> str_int 123 \<notin> set (to_add (map py_str [JInt 123, JInt 7]) (map py_str [JStr ''123'', JStr ''8'']))
   \<and> str_int 123 \<notin> set (to_remove (map py_str [JInt 123, JInt 7]) (map py_str [JStr ''123'', JStr ''8'']))"
  using differencer_int_and_string_agree
    [of 123 "JInt 123" "JStr ''123''" "[JInt 123, JInt 7]" "[JStr ''123'', JStr ''8'']"] repr_123
  by simp

text \<open>
  A string with a trailing ".0" is another member: with 123 remote and "123.0" desired,
  123 is removed, "123.0" is the only member to add, and the coercion drops it.
\<close>

theorem differencer_trailing_zero_counterexample:
  "to_remove_int (map py_str [JInt 123]) (map py_str [JStr ''123.0'']) = [123]
   \<and> to_add (map py_str [JInt 123]) (map py_str [JStr ''123.0'']) = [''123.0'']
   \<and> to_add_int (map py_str [JInt 123]) (map py_str [JStr ''123.0'']) = []
   \<and> to_remove_int (map py_str [JInt 123]) (map py_str [JStr ''123'']) = []"
  by code_simp

section \<open>Values that are no integers\<close>











section \<open>A validation failure that lists the existing variants\<close>

lemma strip_existing_retry_ok:
  assumes "existing_variants resp \<noteq> []"
    and "filter (\<lambda>v. v \<notin> set (existing_variants resp)) batch \<noteq> []"
    and "post_09 e pid (filter (\<lambda>v. v \<notin> set (existing_variants resp)) batch) w1 = (Inr resp2, w2)"
    and "is_2xx resp2"
  shows "strip_existing e pid batch resp w1 = (Inr (Inl (True, [])), w2)"
  using assms by (simp add: strip_existing_def Let_def)

lemma strip_existing_nothing_left:
  assumes "existing_variants resp \<noteq> []"
    and "filter (\<lambda>v. v \<notin> set (existing_variants resp)) batch = []"
  shows "strip_existing e pid batch resp w1 = (Inr (Inl (True, [])), w1)"
  using assms by (simp add: strip_existing_def Let_def)

lemma add_chunk_422:
  assumes "batch \<noteq> []" and "post_09 e pid batch w = (Inr resp, w1)" and "status_code resp = 422"
    and "strip_existing e pid batch resp w1 = (Inr (Inl r), w2)"
  shows "add_chunk_or_bisect e pid batch w = (Inr r, w2)"
  using assms by (subst add_chunk_or_bisect.simps) (simp add: is_2xx_def)

text \<open>
  Claim C4, as the code has it. When the first answer to a batch is a 422 that lists
  existing variants, \<^verbatim>\<open>_add_chunk_or_bisect\<close> strips exactly the listed members. If none
  remain it returns at once; otherwise it posts the remainder, and when that request
  succeeds it returns. In both cases it returns success with an empty list of skipped
  members: the stripped members are recorded neither as skipped nor as failed. The world
  after the call is the world after these requests.
\<close>

theorem existing_variants_are_stripped:
  "(batch \<noteq> [] \<and> post_09 e pid batch w = (Inr resp, w1) \<and> status_code resp = 422
      \<and> existing_variants resp \<noteq> []
      \<and> filter (\<lambda>v. v \<notin> set (existing_variants resp)) batch \<noteq> []
      \<and> post_09 e pid (filter (\<lambda>v. v \<notin> set (existing_variants resp)) batch) w1 = (Inr resp2, w2)
      \<and> is_2xx resp2
      \<longrightarrow> add_chunk_or_bisect e pid batch w = (Inr (True, []), w2))
   \<and> (batch' \<noteq> [] \<and> post_09 e pid batch' w = (Inr resp', w1') \<and> status_code resp' = 422
      \<and> existing_variants resp' \<noteq> []
      \<and> filter (\<lambda>v. v \<notin> set (existing_variants resp')) batch' = []
      \<longrightarrow> add_chunk_or_bisect e pid batch' w = (Inr (True, []), w1'))"
proof (intro conjI impI)
  assume a: "batch \<noteq> [] \<and> post_09 e pid batch w = (Inr resp, w1) \<and> status_code resp = 422
      \<and> existing_variants resp \<noteq> []
      \<and> filter (\<lambda>v. v \<notin> set (existing_variants resp)) batch \<noteq> []
      \<and> post_09 e pid (filter (\<lambda>v. v \<notin> set (existing_variants resp)) batch) w1 = (Inr resp2, w2)
      \<and> is_2xx resp2"
  then have "strip_existing e pid batch resp w1 = (Inr (Inl (True, [])), w2)"
    by (intro strip_existing_retry_ok [where ?resp2.0 = resp2]) simp_all
  with a show "add_chunk_or_bisect e pid batch w = (Inr (True, []), w2)"
    by (intro add_chunk_422 [where resp = resp and ?w1.0 = w1]) simp_all
next
  assume a: "batch' \<noteq> [] \<and> post_09 e pid batch' w = (Inr resp', w1') \<and> status_code resp' = 422
      \<and> existing_variants resp' \<noteq> []
      \<and> filter (\<lambda>v. v \<notin> set (existing_variants resp')) batch' = []"
  then have "strip_existing e pid batch' resp' w1' = (Inr (Inl (True, [])), w1')"
    by (intro strip_existing_nothing_left) simp_all
  with a show "add_chunk_or_bisect e pid batch' w = (Inr (True, []), w1')"
    by (intro add_chunk_422 [where resp = resp' and ?w1.0 = w1']) simp_all
qed

lemma existing_run_first:
  "post_09 (test_env (existing_remote [6])) ''plan-42'' [5, 6, 7, 8] w0
     = (Inr (resp_existing [6]), w_posted ''plan-42'' [[5, 6, 7, 8]])"
  by code_simp

lemma existing_run_retry:
  "post_09 (test_env (existing_remote [6])) ''plan-42'' [5, 7, 8] (w_posted ''plan-42'' [[5, 6, 7, 8]])
     = (Inr (answer 200 ''{}''), w_posted ''plan-42'' [[5, 6, 7, 8], [5, 7, 8]])"
  by code_simp

lemma existing_run_single:
  "post_09 (test_env (existing_remote [6])) ''plan-42'' [6] w0
     = (Inr (resp_existing [6]), w_posted ''plan-42'' [[6]])"
  by code_simp

theorem existing_variants_are_stripped_witness:
  "add_chunk_or_bisect (test_env (existing_remote [6])) ''plan-42'' [5, 6, 7, 8] w0
     = (Inr (True, []), w_posted ''plan-42'' [[5, 6, 7, 8], [5, 7, 8]])
   \<and> add_chunk_or_bisect (test_env (existing_remote [6])) ''plan-42'' [6] w0
     = (Inr (True, []), w_posted ''plan-42'' [[6]])"
proof -
  note t = existing_variants_are_stripped
    [where e = "test_env (existing_remote [6])" and pid = "''plan-42''" and w = w0
       and batch = "[5, 6, 7, 8]" and resp = "resp_existing [6]"
       and ?w1.0 = "w_posted ''plan-42'' [[5, 6, 7, 8]]" and ?resp2.0 = "answer 200 ''{}''"
       and ?w2.0 = "w_posted ''plan-42'' [[5, 6, 7, 8], [5, 7, 8]]"
       and batch' = "[6]" and resp' = "resp_existing [6]"
       and w1' = "w_posted ''plan-42'' [[6]]"]
  have "add_chunk_or_bisect (test_env (existing_remote [6])) ''plan-42'' [5, 6, 7, 8] w0
     = (Inr (True, []), w_posted ''plan-42'' [[5, 6, 7, 8], [5, 7, 8]])"
    using existing_run_first existing_run_retry
    by (intro mp [OF t [THEN conjunct1]]) (simp add: resp_existing_def answer_def is_2xx_def)
  moreover have "add_chunk_or_bisect (test_env (existing_remote [6])) ''plan-42'' [6] w0
     = (Inr (True, []), w_posted ''plan-42'' [[6]])"
    using existing_run_single
    by (intro mp [OF t [THEN conjunct2]]) (simp add: resp_existing_def)
  ultimately show ?thesis by (simp only: simp_thms)
qed

text \<open>
  The scenario of the specification: the batch [5, 6, 7, 8] is rejected with
  \<^verbatim>\<open>existing_variants = [6]\<close>. The script posts [5, 6, 7, 8], then [5, 7, 8], and reports
  success with nothing skipped: member 6 is not recorded as skipped.
\<close>

theorem existing_variants_counterexample:
  "add_chunk_or_bisect (test_env (existing_remote [6])) ''plan-42'' [5, 6, 7, 8] w0
     = (Inr (True, []), w_posted ''plan-42'' [[5, 6, 7, 8], [5, 7, 8]])
   \<and> stoq_add_variants (test_env (existing_remote [6])) ''plan-42'' [5, 6, 7, 8] w0
     = (Inr (True, AllChunksProcessed []), w_posted ''plan-42'' [[5, 6, 7, 8], [5, 7, 8]])"
  by code_simp

section \<open>Retries of transient failures\<close>




















section \<open>Waiting for a locked offer\<close>

















section \<open>Bisection with one failing member\<close>




















section \<open>Errors of one offer and the rest of the run\<close>















end
